theory Spec2Isabelle
  imports Main
begin

section \<open>Python values and dictionaries\<close>

text \<open>
  The mixins build their payloads from Python literals: integers, strings, lists and
  dictionaries, plus whatever the caller hands in. Arguments are never validated or
  converted, so a caller-supplied argument is an arbitrary value, whatever its type hint
  says. Numbers are Python integers: every default is one, and the code copies numeric
  arguments into the payload without computing on them. A dictionary is an
  association list in insertion order with unique keys, which is what a \<^verbatim>\<open>dict\<close>
  is and what the JSON encoder walks.
\<close>

datatype pyval =
    PNone
  | PBool bool
  | PInt int
  | PStr string
  | PList "pyval list"
  | PDict "(string \<times> pyval) list"

text \<open>A keyword argument with a default: \<open>None\<close> is "not passed by the caller".\<close>

definition kwarg :: "'a option \<Rightarrow> 'a \<Rightarrow> 'a" where
  "kwarg given dflt = (case given of None \<Rightarrow> dflt | Some v \<Rightarrow> v)"

text \<open>\<^verbatim>\<open>d[k] = v\<close>: overwrite in place when the key exists, append otherwise.\<close>

fun dict_setitem :: "(string \<times> pyval) list \<Rightarrow> string \<Rightarrow> pyval \<Rightarrow> (string \<times> pyval) list" where
  "dict_setitem [] k v = [(k, v)]"
| "dict_setitem ((k', v') # kvs) k v =
     (if k' = k then (k, v) # kvs else (k', v') # dict_setitem kvs k v)"

text \<open>Python truth value testing, as used by \<^verbatim>\<open>1 if disable else 0\<close>.\<close>

fun truthy :: "pyval \<Rightarrow> bool" where
  "truthy PNone = False"
| "truthy (PBool b) = b"
| "truthy (PInt i) = (i \<noteq> 0)"
| "truthy (PStr s) = (s \<noteq> [])"
| "truthy (PList xs) = (xs \<noteq> [])"
| "truthy (PDict kvs) = (kvs \<noteq> [])"


section \<open>The client object\<close>

text \<open>
  The mixins are composed into one client class whose \<^verbatim>\<open>_execute_command\<close>
  lives outside the four files. It is a field of the client here: it takes the command
  name and the body and acts on the outside world \<open>'s\<close> (transport, session), yielding a
  result \<open>'r\<close>, which may as well be a raised exception.
\<close>

record ('s, 'r) camera =
  execute_command :: "string \<Rightarrow> pyval \<Rightarrow> 's \<Rightarrow> 'r \<times> 's"


section \<open>alarm.py\<close>

definition get_alarm_motion :: "('s, 'r) camera \<Rightarrow> pyval option \<Rightarrow> 's \<Rightarrow> 'r \<times> 's" where
  "get_alarm_motion self channel =
     (let channel = kwarg channel (PInt 0);
          body = PList [PDict [(''cmd'', PStr ''GetAlarm''), (''action'', PInt 1),
                   (''param'', PDict [(''Alarm'',
                      PDict [(''channel'', channel), (''type'', PStr ''md'')])])]]
      in execute_command self ''GetAlarm'' body)"


section \<open>ptz.py\<close>

definition get_ptz_check_state :: "('s, 'r) camera \<Rightarrow> pyval option \<Rightarrow> 's \<Rightarrow> 'r \<times> 's" where
  "get_ptz_check_state self channel =
     (let channel = kwarg channel (PInt 0);
          body = PList [PDict [(''cmd'', PStr ''GetPtzCheckState''), (''action'', PInt 1),
                   (''param'', PDict [(''channel'', channel)])]]
      in execute_command self ''GetPtzCheckState'' body)"

definition get_ptz_presets :: "('s, 'r) camera \<Rightarrow> pyval option \<Rightarrow> 's \<Rightarrow> 'r \<times> 's" where
  "get_ptz_presets self channel =
     (let channel = kwarg channel (PInt 0);
          body = PList [PDict [(''cmd'', PStr ''GetPtzPreset''), (''action'', PInt 1),
                   (''param'', PDict [(''channel'', channel)])]]
      in execute_command self ''GetPtzPreset'' body)"

definition perform_calibration :: "('s, 'r) camera \<Rightarrow> pyval option \<Rightarrow> 's \<Rightarrow> 'r \<times> 's" where
  "perform_calibration self channel =
     (let channel = kwarg channel (PInt 0);
          data = PList [PDict [(''cmd'', PStr ''PtzCheck''), (''action'', PInt 0),
                   (''param'', PDict [(''channel'', channel)])]]
      in execute_command self ''PtzCheck'' data)"

definition send_operation ::
  "('s, 'r) camera \<Rightarrow> string \<Rightarrow> pyval \<Rightarrow> pyval option \<Rightarrow> pyval option \<Rightarrow> 's \<Rightarrow> 'r \<times> 's" where
  "send_operation self operation speed index channel =
     (let index = kwarg index PNone;
          channel = kwarg channel (PInt 0);
          param = [(''channel'', channel), (''op'', PStr operation), (''speed'', speed)];
          param = (if index \<noteq> PNone then dict_setitem param ''id'' index else param);
          data = PList [PDict [(''cmd'', PStr ''PtzCtrl''), (''action'', PInt 0),
                   (''param'', PDict param)]]
      in execute_command self ''PtzCtrl'' data)"

definition send_noparm_operation ::
  "('s, 'r) camera \<Rightarrow> string \<Rightarrow> pyval option \<Rightarrow> 's \<Rightarrow> 'r \<times> 's" where
  "send_noparm_operation self operation channel =
     (let channel = kwarg channel (PInt 0);
          data = PList [PDict [(''cmd'', PStr ''PtzCtrl''), (''action'', PInt 0),
                   (''param'', PDict [(''channel'', channel), (''op'', PStr operation)])]]
      in execute_command self ''PtzCtrl'' data)"

definition send_set_preset ::
  "('s, 'r) camera \<Rightarrow> pyval \<Rightarrow> pyval option \<Rightarrow> pyval option \<Rightarrow> pyval option \<Rightarrow> 's \<Rightarrow> 'r \<times> 's" where
  "send_set_preset self enable preset name channel =
     (let preset = kwarg preset (PInt 1);
          name = kwarg name (PStr ''pos1'');
          channel = kwarg channel (PInt 0);
          data = PList [PDict [(''cmd'', PStr ''SetPtzPreset''), (''action'', PInt 0),
                   (''param'', PDict [(''PtzPreset'',
                      PDict [(''channel'', channel), (''enable'', enable),
                             (''id'', preset), (''name'', name)])])]]
      in execute_command self ''PtzCtrl'' data)"

definition go_to_preset ::
  "('s, 'r) camera \<Rightarrow> pyval option \<Rightarrow> pyval option \<Rightarrow> pyval option \<Rightarrow> 's \<Rightarrow> 'r \<times> 's" where
  "go_to_preset self speed index channel =
     (let speed = kwarg speed (PInt 60);
          index = kwarg index (PInt 1);
          channel = kwarg channel (PInt 0)
      in send_operation self ''ToPos'' speed (Some index) (Some channel))"

definition add_preset ::
  "('s, 'r) camera \<Rightarrow> pyval option \<Rightarrow> pyval option \<Rightarrow> pyval option \<Rightarrow> 's \<Rightarrow> 'r \<times> 's" where
  "add_preset self preset name channel =
     (let preset = kwarg preset (PInt 1);
          name = kwarg name (PStr ''pos1'');
          channel = kwarg channel (PInt 0)
      in send_set_preset self (PInt 1) (Some preset) (Some name) (Some channel))"

definition remove_preset ::
  "('s, 'r) camera \<Rightarrow> pyval option \<Rightarrow> pyval option \<Rightarrow> pyval option \<Rightarrow> 's \<Rightarrow> 'r \<times> 's" where
  "remove_preset self preset name channel =
     (let preset = kwarg preset (PInt 1);
          name = kwarg name (PStr ''pos1'');
          channel = kwarg channel (PInt 0)
      in send_set_preset self (PInt 0) (Some preset) (Some name) (Some channel))"

text \<open>
  The directional moves differ in the operation string only; each has
  \<^verbatim>\<open>speed: float = 25, channel: int = 0\<close> and leaves \<^verbatim>\<open>index\<close> at its default.
\<close>

definition move_right :: "('s, 'r) camera \<Rightarrow> pyval option \<Rightarrow> pyval option \<Rightarrow> 's \<Rightarrow> 'r \<times> 's" where
  "move_right self speed channel =
     send_operation self ''Right'' (kwarg speed (PInt 25)) None (Some (kwarg channel (PInt 0)))"

definition move_right_up :: "('s, 'r) camera \<Rightarrow> pyval option \<Rightarrow> pyval option \<Rightarrow> 's \<Rightarrow> 'r \<times> 's" where
  "move_right_up self speed channel =
     send_operation self ''RightUp'' (kwarg speed (PInt 25)) None (Some (kwarg channel (PInt 0)))"

definition move_right_down :: "('s, 'r) camera \<Rightarrow> pyval option \<Rightarrow> pyval option \<Rightarrow> 's \<Rightarrow> 'r \<times> 's" where
  "move_right_down self speed channel =
     send_operation self ''RightDown'' (kwarg speed (PInt 25)) None (Some (kwarg channel (PInt 0)))"

definition move_left :: "('s, 'r) camera \<Rightarrow> pyval option \<Rightarrow> pyval option \<Rightarrow> 's \<Rightarrow> 'r \<times> 's" where
  "move_left self speed channel =
     send_operation self ''Left'' (kwarg speed (PInt 25)) None (Some (kwarg channel (PInt 0)))"

definition move_left_up :: "('s, 'r) camera \<Rightarrow> pyval option \<Rightarrow> pyval option \<Rightarrow> 's \<Rightarrow> 'r \<times> 's" where
  "move_left_up self speed channel =
     send_operation self ''LeftUp'' (kwarg speed (PInt 25)) None (Some (kwarg channel (PInt 0)))"

definition move_left_down :: "('s, 'r) camera \<Rightarrow> pyval option \<Rightarrow> pyval option \<Rightarrow> 's \<Rightarrow> 'r \<times> 's" where
  "move_left_down self speed channel =
     send_operation self ''LeftDown'' (kwarg speed (PInt 25)) None (Some (kwarg channel (PInt 0)))"

definition move_up :: "('s, 'r) camera \<Rightarrow> pyval option \<Rightarrow> pyval option \<Rightarrow> 's \<Rightarrow> 'r \<times> 's" where
  "move_up self speed channel =
     send_operation self ''Up'' (kwarg speed (PInt 25)) None (Some (kwarg channel (PInt 0)))"

definition move_down :: "('s, 'r) camera \<Rightarrow> pyval option \<Rightarrow> pyval option \<Rightarrow> 's \<Rightarrow> 'r \<times> 's" where
  "move_down self speed channel =
     send_operation self ''Down'' (kwarg speed (PInt 25)) None (Some (kwarg channel (PInt 0)))"

definition stop_ptz :: "('s, 'r) camera \<Rightarrow> pyval option \<Rightarrow> 's \<Rightarrow> 'r \<times> 's" where
  "stop_ptz self channel =
     send_noparm_operation self ''Stop'' (Some (kwarg channel (PInt 0)))"

definition auto_movement :: "('s, 'r) camera \<Rightarrow> pyval option \<Rightarrow> pyval option \<Rightarrow> 's \<Rightarrow> 'r \<times> 's" where
  "auto_movement self speed channel =
     send_operation self ''Auto'' (kwarg speed (PInt 25)) None (Some (kwarg channel (PInt 0)))"


section \<open>record.py\<close>

definition get_recording_encoding :: "('s, 'r) camera \<Rightarrow> pyval option \<Rightarrow> 's \<Rightarrow> 'r \<times> 's" where
  "get_recording_encoding self channel =
     (let channel = kwarg channel (PInt 0);
          body = PList [PDict [(''cmd'', PStr ''GetEnc''), (''action'', PInt 1),
                   (''param'', PDict [(''channel'', channel)])]]
      in execute_command self ''GetEnc'' body)"

definition get_recording_advanced :: "('s, 'r) camera \<Rightarrow> pyval option \<Rightarrow> 's \<Rightarrow> 'r \<times> 's" where
  "get_recording_advanced self channel =
     (let channel = kwarg channel (PInt 0);
          body = PList [PDict [(''cmd'', PStr ''GetRec''), (''action'', PInt 1),
                   (''param'', PDict [(''channel'', channel)])]]
      in execute_command self ''GetRec'' body)"

definition get_recording_advanced_v20 :: "('s, 'r) camera \<Rightarrow> pyval option \<Rightarrow> 's \<Rightarrow> 'r \<times> 's" where
  "get_recording_advanced_v20 self channel =
     (let channel = kwarg channel (PInt 0);
          body = PList [PDict [(''cmd'', PStr ''GetRecV20''), (''action'', PInt 0),
                   (''param'', PDict [(''channel'', channel)])]]
      in execute_command self ''GetRecV20'' body)"

definition set_recording_advanced_v20_enable ::
  "('s, 'r) camera \<Rightarrow> pyval option \<Rightarrow> 's \<Rightarrow> 'r \<times> 's" where
  "set_recording_advanced_v20_enable self enable =
     (let enable = kwarg enable (PInt 0);
          body = PList [PDict [(''cmd'', PStr ''SetRecV20''), (''action'', PInt 0),
                   (''param'', PDict [(''Rec'', PDict [(''enable'', enable)])])]]
      in execute_command self ''SetRecV20'' body)"

text \<open>The ten keyword arguments of \<^verbatim>\<open>set_recording_encoding\<close>, each optional.\<close>

record enc_args =
  audio :: "pyval option"
  main_bit_rate :: "pyval option"
  main_frame_rate :: "pyval option"
  main_profile :: "pyval option"
  main_size :: "pyval option"
  sub_bit_rate :: "pyval option"
  sub_frame_rate :: "pyval option"
  sub_profile :: "pyval option"
  sub_size :: "pyval option"
  enc_channel :: "pyval option"

definition set_recording_encoding :: "('s, 'r) camera \<Rightarrow> enc_args \<Rightarrow> 's \<Rightarrow> 'r \<times> 's" where
  "set_recording_encoding self args =
     (let body = PList [PDict [
            (''cmd'', PStr ''SetEnc''),
            (''action'', PInt 0),
            (''param'', PDict [(''Enc'', PDict [
               (''audio'', kwarg (audio args) (PInt 0)),
               (''channel'', kwarg (enc_channel args) (PInt 0)),
               (''mainStream'', PDict [
                  (''bitRate'', kwarg (main_bit_rate args) (PInt 8192)),
                  (''frameRate'', kwarg (main_frame_rate args) (PInt 8)),
                  (''profile'', kwarg (main_profile args) (PStr ''High'')),
                  (''size'', kwarg (main_size args) (PStr ''2560*1440''))]),
               (''subStream'', PDict [
                  (''bitRate'', kwarg (sub_bit_rate args) (PInt 160)),
                  (''frameRate'', kwarg (sub_frame_rate args) (PInt 7)),
                  (''profile'', kwarg (sub_profile args) (PStr ''High'')),
                  (''size'', kwarg (sub_size args) (PStr ''640*480''))])])])]]
      in execute_command self ''SetEnc'' body)"


section \<open>zoom.py\<close>

definition start_operation ::
  "('s, 'r) camera \<Rightarrow> string \<Rightarrow> pyval \<Rightarrow> pyval option \<Rightarrow> 's \<Rightarrow> 'r \<times> 's" where
  "start_operation self operation speed channel =
     (let channel = kwarg channel (PInt 0);
          data = PList [PDict [(''cmd'', PStr ''PtzCtrl''), (''action'', PInt 0),
                   (''param'', PDict [(''channel'', channel), (''op'', PStr operation),
                                      (''speed'', speed)])]]
      in execute_command self ''PtzCtrl'' data)"

definition stop_zooming_or_focusing :: "('s, 'r) camera \<Rightarrow> pyval option \<Rightarrow> 's \<Rightarrow> 'r \<times> 's" where
  "stop_zooming_or_focusing self channel =
     (let channel = kwarg channel (PInt 0);
          data = PList [PDict [(''cmd'', PStr ''PtzCtrl''), (''action'', PInt 0),
                   (''param'', PDict [(''channel'', channel), (''op'', PStr ''Stop'')])]]
      in execute_command self ''PtzCtrl'' data)"

definition get_zoom_focus :: "('s, 'r) camera \<Rightarrow> pyval option \<Rightarrow> 's \<Rightarrow> 'r \<times> 's" where
  "get_zoom_focus self channel =
     (let channel = kwarg channel (PInt 0);
          data = PList [PDict [(''cmd'', PStr ''GetZoomFocus''), (''action'', PInt 0),
                   (''param'', PDict [(''channel'', channel)])]]
      in execute_command self ''GetZoomFocus'' data)"

definition start_zoom_pos :: "('s, 'r) camera \<Rightarrow> pyval \<Rightarrow> pyval option \<Rightarrow> 's \<Rightarrow> 'r \<times> 's" where
  "start_zoom_pos self position channel =
     (let channel = kwarg channel (PInt 0);
          data = PList [PDict [(''cmd'', PStr ''StartZoomFocus''), (''action'', PInt 0),
                   (''param'', PDict [(''ZoomFocus'',
                      PDict [(''channel'', channel), (''op'', PStr ''ZoomPos''),
                             (''pos'', position)])])]]
      in execute_command self ''StartZoomFocus'' data)"

definition start_focus_pos :: "('s, 'r) camera \<Rightarrow> pyval \<Rightarrow> pyval option \<Rightarrow> 's \<Rightarrow> 'r \<times> 's" where
  "start_focus_pos self position channel =
     (let channel = kwarg channel (PInt 0);
          data = PList [PDict [(''cmd'', PStr ''StartZoomFocus''), (''action'', PInt 0),
                   (''param'', PDict [(''ZoomFocus'',
                      PDict [(''channel'', channel), (''op'', PStr ''FocusPos''),
                             (''pos'', position)])])]]
      in execute_command self ''StartZoomFocus'' data)"

definition get_auto_focus :: "('s, 'r) camera \<Rightarrow> pyval option \<Rightarrow> 's \<Rightarrow> 'r \<times> 's" where
  "get_auto_focus self channel =
     (let channel = kwarg channel (PInt 0);
          data = PList [PDict [(''cmd'', PStr ''GetAutoFocus''), (''action'', PInt 0),
                   (''param'', PDict [(''channel'', channel)])]]
      in execute_command self ''GetAutoFocus'' data)"

definition set_auto_focus :: "('s, 'r) camera \<Rightarrow> pyval \<Rightarrow> pyval option \<Rightarrow> 's \<Rightarrow> 'r \<times> 's" where
  "set_auto_focus self disable channel =
     (let channel = kwarg channel (PInt 0);
          data = PList [PDict [(''cmd'', PStr ''SetAutoFocus''), (''action'', PInt 0),
                   (''param'', PDict [(''AutoFocus'',
                      PDict [(''channel'', channel),
                             (''disable'', if truthy disable then PInt 1 else PInt 0)])])]]
      in execute_command self ''SetAutoFocus'' data)"

definition start_zooming_in :: "('s, 'r) camera \<Rightarrow> pyval option \<Rightarrow> pyval option \<Rightarrow> 's \<Rightarrow> 'r \<times> 's" where
  "start_zooming_in self speed channel =
     start_operation self ''ZoomInc'' (kwarg speed (PInt 60)) (Some (kwarg channel (PInt 0)))"

definition start_zooming_out :: "('s, 'r) camera \<Rightarrow> pyval option \<Rightarrow> pyval option \<Rightarrow> 's \<Rightarrow> 'r \<times> 's" where
  "start_zooming_out self speed channel =
     start_operation self ''ZoomDec'' (kwarg speed (PInt 60)) (Some (kwarg channel (PInt 0)))"

definition stop_zooming :: "('s, 'r) camera \<Rightarrow> pyval option \<Rightarrow> 's \<Rightarrow> 'r \<times> 's" where
  "stop_zooming self channel =
     stop_zooming_or_focusing self (Some (kwarg channel (PInt 0)))"

definition start_focusing_in :: "('s, 'r) camera \<Rightarrow> pyval option \<Rightarrow> pyval option \<Rightarrow> 's \<Rightarrow> 'r \<times> 's" where
  "start_focusing_in self speed channel =
     start_operation self ''FocusInc'' (kwarg speed (PInt 32)) (Some (kwarg channel (PInt 0)))"

definition start_focusing_out :: "('s, 'r) camera \<Rightarrow> pyval option \<Rightarrow> pyval option \<Rightarrow> 's \<Rightarrow> 'r \<times> 's" where
  "start_focusing_out self speed channel =
     start_operation self ''FocusDec'' (kwarg speed (PInt 32)) (Some (kwarg channel (PInt 0)))"

definition stop_focusing :: "('s, 'r) camera \<Rightarrow> pyval option \<Rightarrow> 's \<Rightarrow> 'r \<times> 's" where
  "stop_focusing self channel =
     stop_zooming_or_focusing self (Some (kwarg channel (PInt 0)))"


section \<open>Calls of the public interface\<close>

text \<open>
  One constructor per public method of the four mixins, carrying the arguments of the
  call; an argument with a default is optional. \<open>invoke\<close> is Python's method call.
\<close>

datatype call =
    Get_alarm_motion "pyval option"
  | Get_ptz_check_state "pyval option"
  | Get_ptz_presets "pyval option"
  | Perform_calibration "pyval option"
  | Go_to_preset "pyval option" "pyval option" "pyval option"
  | Add_preset "pyval option" "pyval option" "pyval option"
  | Remove_preset "pyval option" "pyval option" "pyval option"
  | Move_right "pyval option" "pyval option"
  | Move_right_up "pyval option" "pyval option"
  | Move_right_down "pyval option" "pyval option"
  | Move_left "pyval option" "pyval option"
  | Move_left_up "pyval option" "pyval option"
  | Move_left_down "pyval option" "pyval option"
  | Move_up "pyval option" "pyval option"
  | Move_down "pyval option" "pyval option"
  | Stop_ptz "pyval option"
  | Auto_movement "pyval option" "pyval option"
  | Get_recording_encoding "pyval option"
  | Get_recording_advanced "pyval option"
  | Get_recording_advanced_v20 "pyval option"
  | Set_recording_advanced_v20_enable "pyval option"
  | Set_recording_encoding enc_args
  | Get_zoom_focus "pyval option"
  | Start_zoom_pos pyval "pyval option"
  | Start_focus_pos pyval "pyval option"
  | Get_auto_focus "pyval option"
  | Set_auto_focus pyval "pyval option"
  | Start_zooming_in "pyval option" "pyval option"
  | Start_zooming_out "pyval option" "pyval option"
  | Stop_zooming "pyval option"
  | Start_focusing_in "pyval option" "pyval option"
  | Start_focusing_out "pyval option" "pyval option"
  | Stop_focusing "pyval option"

fun invoke :: "('s, 'r) camera \<Rightarrow> call \<Rightarrow> 's \<Rightarrow> 'r \<times> 's" where
  "invoke self (Get_alarm_motion ch) = get_alarm_motion self ch"
| "invoke self (Get_ptz_check_state ch) = get_ptz_check_state self ch"
| "invoke self (Get_ptz_presets ch) = get_ptz_presets self ch"
| "invoke self (Perform_calibration ch) = perform_calibration self ch"
| "invoke self (Go_to_preset sp ix ch) = go_to_preset self sp ix ch"
| "invoke self (Add_preset pr nm ch) = add_preset self pr nm ch"
| "invoke self (Remove_preset pr nm ch) = remove_preset self pr nm ch"
| "invoke self (Move_right sp ch) = move_right self sp ch"
| "invoke self (Move_right_up sp ch) = move_right_up self sp ch"
| "invoke self (Move_right_down sp ch) = move_right_down self sp ch"
| "invoke self (Move_left sp ch) = move_left self sp ch"
| "invoke self (Move_left_up sp ch) = move_left_up self sp ch"
| "invoke self (Move_left_down sp ch) = move_left_down self sp ch"
| "invoke self (Move_up sp ch) = move_up self sp ch"
| "invoke self (Move_down sp ch) = move_down self sp ch"
| "invoke self (Stop_ptz ch) = stop_ptz self ch"
| "invoke self (Auto_movement sp ch) = auto_movement self sp ch"
| "invoke self (Get_recording_encoding ch) = get_recording_encoding self ch"
| "invoke self (Get_recording_advanced ch) = get_recording_advanced self ch"
| "invoke self (Get_recording_advanced_v20 ch) = get_recording_advanced_v20 self ch"
| "invoke self (Set_recording_advanced_v20_enable en) = set_recording_advanced_v20_enable self en"
| "invoke self (Set_recording_encoding args) = set_recording_encoding self args"
| "invoke self (Get_zoom_focus ch) = get_zoom_focus self ch"
| "invoke self (Start_zoom_pos pos ch) = start_zoom_pos self pos ch"
| "invoke self (Start_focus_pos pos ch) = start_focus_pos self pos ch"
| "invoke self (Get_auto_focus ch) = get_auto_focus self ch"
| "invoke self (Set_auto_focus dis ch) = set_auto_focus self dis ch"
| "invoke self (Start_zooming_in sp ch) = start_zooming_in self sp ch"
| "invoke self (Start_zooming_out sp ch) = start_zooming_out self sp ch"
| "invoke self (Stop_zooming ch) = stop_zooming self ch"
| "invoke self (Start_focusing_in sp ch) = start_focusing_in self sp ch"
| "invoke self (Start_focusing_out sp ch) = start_focusing_out self sp ch"
| "invoke self (Stop_focusing ch) = stop_focusing self ch"

section \<open>Observing a call\<close>

text \<open>
  A dispatcher that sends nothing and appends each request, command name and body, to a
  log. Running a call against it from the empty log shows what the call hands to
  \<^verbatim>\<open>_execute_command\<close>, and how often.
\<close>

definition recording_dispatcher ::
  "string \<Rightarrow> pyval \<Rightarrow> (string \<times> pyval) list \<Rightarrow> pyval \<times> (string \<times> pyval) list" where
  "recording_dispatcher name body log = (PNone, log @ [(name, body)])"

definition dispatched :: "call \<Rightarrow> (string \<times> pyval) list" where
  "dispatched c = snd (invoke \<lparr>execute_command = recording_dispatcher\<rparr> c [])"

text \<open>
  The command name and the descriptor of a call that dispatched exactly once, the
  descriptor being the only element of the body; \<open>None\<close> for anything else.
\<close>

definition call_name :: "call \<Rightarrow> string option" where
  "call_name c = (case dispatched c of [(name, body)] \<Rightarrow> Some name | _ \<Rightarrow> None)"

definition call_descriptor :: "call \<Rightarrow> pyval option" where
  "call_descriptor c = (case dispatched c of [(name, PList [d])] \<Rightarrow> Some d | _ \<Rightarrow> None)"

text \<open>\<^verbatim>\<open>d[k]\<close> as a lookup: \<open>None\<close> where Python raises.\<close>

fun dict_get :: "pyval \<Rightarrow> string \<Rightarrow> pyval option" where
  "dict_get (PDict kvs) k = map_of kvs k"
| "dict_get _ k = None"

definition call_cmd :: "call \<Rightarrow> pyval option" where
  "call_cmd c = Option.bind (call_descriptor c) (\<lambda>d. dict_get d ''cmd'')"

definition call_action :: "call \<Rightarrow> pyval option" where
  "call_action c = Option.bind (call_descriptor c) (\<lambda>d. dict_get d ''action'')"

definition call_param :: "call \<Rightarrow> pyval option" where
  "call_param c = Option.bind (call_descriptor c) (\<lambda>d. dict_get d ''param'')"

text \<open>
  Reading and replacing the value under a path of keys, \<^verbatim>\<open>d[k1][k2]...\<close>; both
  are \<open>None\<close> when a key along the path is missing or a non-dictionary is indexed.
\<close>

fun path_get :: "string list \<Rightarrow> pyval \<Rightarrow> pyval option" where
  "path_get [] v = Some v"
| "path_get (k # ks) v = Option.bind (dict_get v k) (path_get ks)"

fun path_set :: "string list \<Rightarrow> pyval \<Rightarrow> pyval \<Rightarrow> pyval option" where
  "path_set [] new v = Some new"
| "path_set (k # ks) new (PDict kvs) =
     Option.bind (map_of kvs k) (\<lambda>sub.
       map_option (\<lambda>sub'. PDict (dict_setitem kvs k sub')) (path_set ks new sub))"
| "path_set (k # ks) new _ = None"

text \<open>
  The channel carried by a \<^verbatim>\<open>param\<close> object: the value under the key
  \<^verbatim>\<open>channel\<close> of the object itself or, failing that, of the first of its
  dictionary-valued entries that has the key.
\<close>

fun nested_channel :: "(string \<times> pyval) list \<Rightarrow> pyval option" where
  "nested_channel [] = None"
| "nested_channel ((k, PDict inner) # rest) =
     (case map_of inner ''channel'' of Some v \<Rightarrow> Some v | None \<Rightarrow> nested_channel rest)"
| "nested_channel (_ # rest) = nested_channel rest"

fun param_channel :: "pyval \<Rightarrow> pyval option" where
  "param_channel (PDict par) =
     (case map_of par ''channel'' of Some v \<Rightarrow> Some v | None \<Rightarrow> nested_channel par)"
| "param_channel _ = None"

text \<open>
  The channel argument of a call: \<open>None\<close> when the method has no channel parameter,
  \<open>Some None\<close> when it has one and the caller left it out.
\<close>

fun channel_argument :: "call \<Rightarrow> pyval option option" where
  "channel_argument (Get_alarm_motion ch) = Some ch"
| "channel_argument (Get_ptz_check_state ch) = Some ch"
| "channel_argument (Get_ptz_presets ch) = Some ch"
| "channel_argument (Perform_calibration ch) = Some ch"
| "channel_argument (Go_to_preset sp ix ch) = Some ch"
| "channel_argument (Add_preset pr nm ch) = Some ch"
| "channel_argument (Remove_preset pr nm ch) = Some ch"
| "channel_argument (Move_right sp ch) = Some ch"
| "channel_argument (Move_right_up sp ch) = Some ch"
| "channel_argument (Move_right_down sp ch) = Some ch"
| "channel_argument (Move_left sp ch) = Some ch"
| "channel_argument (Move_left_up sp ch) = Some ch"
| "channel_argument (Move_left_down sp ch) = Some ch"
| "channel_argument (Move_up sp ch) = Some ch"
| "channel_argument (Move_down sp ch) = Some ch"
| "channel_argument (Stop_ptz ch) = Some ch"
| "channel_argument (Auto_movement sp ch) = Some ch"
| "channel_argument (Get_recording_encoding ch) = Some ch"
| "channel_argument (Get_recording_advanced ch) = Some ch"
| "channel_argument (Get_recording_advanced_v20 ch) = Some ch"
| "channel_argument (Set_recording_advanced_v20_enable en) = None"
| "channel_argument (Set_recording_encoding args) = Some (enc_channel args)"
| "channel_argument (Get_zoom_focus ch) = Some ch"
| "channel_argument (Start_zoom_pos pos ch) = Some ch"
| "channel_argument (Start_focus_pos pos ch) = Some ch"
| "channel_argument (Get_auto_focus ch) = Some ch"
| "channel_argument (Set_auto_focus dis ch) = Some ch"
| "channel_argument (Start_zooming_in sp ch) = Some ch"
| "channel_argument (Start_zooming_out sp ch) = Some ch"
| "channel_argument (Stop_zooming ch) = Some ch"
| "channel_argument (Start_focusing_in sp ch) = Some ch"
| "channel_argument (Start_focusing_out sp ch) = Some ch"
| "channel_argument (Stop_focusing ch) = Some ch"

text \<open>The public methods named \<^verbatim>\<open>get_*\<close>, the queries.\<close>

fun is_getter :: "call \<Rightarrow> bool" where
  "is_getter (Get_alarm_motion ch) = True"
| "is_getter (Get_ptz_check_state ch) = True"
| "is_getter (Get_ptz_presets ch) = True"
| "is_getter (Get_recording_encoding ch) = True"
| "is_getter (Get_recording_advanced ch) = True"
| "is_getter (Get_recording_advanced_v20 ch) = True"
| "is_getter (Get_zoom_focus ch) = True"
| "is_getter (Get_auto_focus ch) = True"
| "is_getter _ = False"

text \<open>The two methods that go through \<^verbatim>\<open>_send_set_preset\<close>.\<close>

fun is_preset_edit :: "call \<Rightarrow> bool" where
  "is_preset_edit (Add_preset pr nm ch) = True"
| "is_preset_edit (Remove_preset pr nm ch) = True"
| "is_preset_edit _ = False"


section \<open>Unfolding and evaluation rules\<close>

lemmas method_defs =
  get_alarm_motion_def get_ptz_check_state_def get_ptz_presets_def perform_calibration_def
  send_operation_def send_noparm_operation_def send_set_preset_def go_to_preset_def
  add_preset_def remove_preset_def move_right_def move_right_up_def move_right_down_def
  move_left_def move_left_up_def move_left_down_def move_up_def move_down_def stop_ptz_def
  auto_movement_def get_recording_encoding_def get_recording_advanced_def
  get_recording_advanced_v20_def set_recording_advanced_v20_enable_def
  set_recording_encoding_def start_operation_def stop_zooming_or_focusing_def
  get_zoom_focus_def start_zoom_pos_def start_focus_pos_def get_auto_focus_def
  set_auto_focus_def start_zooming_in_def start_zooming_out_def stop_zooming_def
  start_focusing_in_def start_focusing_out_def stop_focusing_def

lemmas observe_defs =
  dispatched_def recording_dispatcher_def call_name_def call_descriptor_def
  call_cmd_def call_action_def call_param_def

lemma kwarg_simps [simp]: "kwarg None d = d" "kwarg (Some v) d = v"
  by (simp_all add: kwarg_def)

lemma dispatched_shape:
  "\<exists>name cmd act par. dispatched c =
     [(name, PList [PDict [(''cmd'', PStr cmd), (''action'', PInt act), (''param'', PDict par)]])]"
  by (cases c; simp add: dispatched_def recording_dispatcher_def method_defs Let_def
        split del: if_split)

lemma invoke_via_dispatched:
  "dispatched c = [(n, b)] \<Longrightarrow> invoke self c s = execute_command self n b s"
  by (cases c; auto simp add: dispatched_def recording_dispatcher_def method_defs Let_def)


section \<open>The dispatch pattern\<close>

text \<open>
  C1: every public method of the four mixins builds exactly one command descriptor (a
  dictionary with the keys cmd, action and param), wraps it in a one-element list, calls
  \<^verbatim>\<open>_execute_command\<close> exactly once with that list, and returns the dispatcher's
  result unmodified. Against the recording dispatcher the log holds one request; against
  any dispatcher and from any state, the call is that one request and nothing else.
\<close>

theorem every_method_dispatches_once:
  "\<exists>name cmd act par.
     dispatched c =
       [(name, PList [PDict [(''cmd'', PStr cmd), (''action'', PInt act), (''param'', PDict par)]])]
     \<and> (\<forall>(self :: ('s, 'r) camera) s. invoke self c s =
           execute_command self name
            (PList [PDict [(''cmd'', PStr cmd), (''action'', PInt act), (''param'', PDict par)]]) s)"
proof -
  obtain name cmd act par where d: "dispatched c =
     [(name, PList [PDict [(''cmd'', PStr cmd), (''action'', PInt act), (''param'', PDict par)]])]"
    using dispatched_shape by blast
  have "\<forall>(self :: ('s, 'r) camera) s. invoke self c s =
           execute_command self name
            (PList [PDict [(''cmd'', PStr cmd), (''action'', PInt act), (''param'', PDict par)]]) s"
    using invoke_via_dispatched [OF d] by blast
  with d show ?thesis by blast
qed

text \<open>
  C10: \<^verbatim>\<open>add_preset\<close> and \<^verbatim>\<open>remove_preset\<close> pass the command name
  'PtzCtrl' to \<^verbatim>\<open>_execute_command\<close> although the cmd field of their descriptor
  is "SetPtzPreset"; every other public method passes a command name equal to the cmd
  field of its descriptor.
\<close>

theorem command_name_versus_cmd:
  "(is_preset_edit c \<longrightarrow>
      call_name c = Some ''PtzCtrl'' \<and> call_cmd c = Some (PStr ''SetPtzPreset''))
   \<and> (\<not> is_preset_edit c \<longrightarrow>
      call_name c \<noteq> None \<and> call_cmd c = map_option PStr (call_name c))"
  by (cases c; simp add: observe_defs method_defs Let_def)

theorem command_name_versus_cmd_witness:
  "is_preset_edit (Add_preset None None None)
   \<and> call_name (Add_preset None None None) = Some ''PtzCtrl''
   \<and> call_cmd (Add_preset None None None) = Some (PStr ''SetPtzPreset'')
   \<and> \<not> is_preset_edit (Start_zoom_pos (PInt 5) None)
   \<and> call_name (Start_zoom_pos (PInt 5) None) \<noteq> None
   \<and> call_cmd (Start_zoom_pos (PInt 5) None)
        = map_option PStr (call_name (Start_zoom_pos (PInt 5) None))"
  using command_name_versus_cmd [of "Add_preset None None None"]
        command_name_versus_cmd [of "Start_zoom_pos (PInt 5) None"]
  by simp

section \<open>Alarm status\<close>

text \<open>
  C9: \<^verbatim>\<open>get_alarm_motion(channel)\<close> builds a descriptor with cmd "GetAlarm", action 1
  and param Alarm holding the channel and type "md", and what it returns is the
  dispatcher's response to that body, with no post-processing. The channel is 0 when
  the caller leaves it out.
\<close>

theorem get_alarm_motion_body:
  "get_alarm_motion self channel s =
     execute_command self ''GetAlarm''
       (PList [PDict [(''cmd'', PStr ''GetAlarm''), (''action'', PInt 1),
          (''param'', PDict [(''Alarm'',
             PDict [(''channel'', kwarg channel (PInt 0)), (''type'', PStr ''md'')])])]]) s"
  by (simp add: get_alarm_motion_def)

section \<open>PTZ presets and stop\<close>

text \<open>
  C2: \<^verbatim>\<open>go_to_preset(speed=60, index=1, channel=0)\<close> passes to the dispatcher exactly
  the body [{"cmd":"PtzCtrl","action":0,"param":{"channel":0,"op":"ToPos","speed":60,"id":1}}].
\<close>

theorem go_to_preset_example:
  "go_to_preset self (Some (PInt 60)) (Some (PInt 1)) (Some (PInt 0)) s =
     execute_command self ''PtzCtrl''
       (PList [PDict [(''cmd'', PStr ''PtzCtrl''), (''action'', PInt 0),
          (''param'', PDict [(''channel'', PInt 0), (''op'', PStr ''ToPos''),
                             (''speed'', PInt 60), (''id'', PInt 1)])]]) s"
  by (simp add: go_to_preset_def send_operation_def Let_def)

text \<open>
  C3: \<^verbatim>\<open>add_preset(preset=2, name="pos2")\<close> builds a descriptor with cmd
  "SetPtzPreset", action 0 and param PtzPreset holding enable 1, id 2, name "pos2" and
  the channel, which is 0 when left out.
\<close>

theorem add_preset_example:
  "add_preset self (Some (PInt 2)) (Some (PStr ''pos2'')) channel s =
     execute_command self ''PtzCtrl''
       (PList [PDict [(''cmd'', PStr ''SetPtzPreset''), (''action'', PInt 0),
          (''param'', PDict [(''PtzPreset'',
             PDict [(''channel'', kwarg channel (PInt 0)), (''enable'', PInt 1),
                    (''id'', PInt 2), (''name'', PStr ''pos2'')])])]]) s"
  by (simp add: add_preset_def send_set_preset_def Let_def)

text \<open>
  C4: for equal preset, name and channel arguments, given or left out, the request of
  \<^verbatim>\<open>remove_preset\<close> differs from that of \<^verbatim>\<open>add_preset\<close> only in
  PtzPreset.enable, which is 0 for the former and 1 for the latter: same command name,
  and each descriptor is the other with the value under param.PtzPreset.enable replaced.
\<close>

theorem remove_preset_differs_in_enable:
  "call_name (Remove_preset preset name channel) = call_name (Add_preset preset name channel)
   \<and> call_name (Add_preset preset name channel) \<noteq> None
   \<and> Option.bind (call_descriptor (Add_preset preset name channel))
        (path_get [''param'', ''PtzPreset'', ''enable'']) = Some (PInt 1)
   \<and> Option.bind (call_descriptor (Remove_preset preset name channel))
        (path_get [''param'', ''PtzPreset'', ''enable'']) = Some (PInt 0)
   \<and> Option.bind (call_descriptor (Add_preset preset name channel))
        (path_set [''param'', ''PtzPreset'', ''enable''] (PInt 0))
       = call_descriptor (Remove_preset preset name channel)
   \<and> Option.bind (call_descriptor (Remove_preset preset name channel))
        (path_set [''param'', ''PtzPreset'', ''enable''] (PInt 1))
       = call_descriptor (Add_preset preset name channel)"
  by (simp add: observe_defs add_preset_def remove_preset_def send_set_preset_def Let_def)

text \<open>
  C7: for the same channel argument, \<^verbatim>\<open>stop_ptz\<close>, \<^verbatim>\<open>stop_zooming\<close> and
  \<^verbatim>\<open>stop_focusing\<close> pass to the dispatcher the identical body
  [{"cmd":"PtzCtrl","action":0,"param":{"channel":channel,"op":"Stop"}}], whose param has
  the keys channel and op and neither speed nor id.
\<close>

theorem stop_commands_identical:
  "stop_ptz self channel s =
     execute_command self ''PtzCtrl''
       (PList [PDict [(''cmd'', PStr ''PtzCtrl''), (''action'', PInt 0),
          (''param'', PDict [(''channel'', kwarg channel (PInt 0)), (''op'', PStr ''Stop'')])]]) s
   \<and> stop_zooming self channel s =
     execute_command self ''PtzCtrl''
       (PList [PDict [(''cmd'', PStr ''PtzCtrl''), (''action'', PInt 0),
          (''param'', PDict [(''channel'', kwarg channel (PInt 0)), (''op'', PStr ''Stop'')])]]) s
   \<and> stop_focusing self channel s =
     execute_command self ''PtzCtrl''
       (PList [PDict [(''cmd'', PStr ''PtzCtrl''), (''action'', PInt 0),
          (''param'', PDict [(''channel'', kwarg channel (PInt 0)), (''op'', PStr ''Stop'')])]]) s"
  by (simp add: stop_ptz_def send_noparm_operation_def stop_zooming_def stop_focusing_def
        stop_zooming_or_focusing_def Let_def)

section \<open>Auto focus\<close>

text \<open>
  C8: \<^verbatim>\<open>set_auto_focus\<close> builds a descriptor with cmd "SetAutoFocus", action 0 and
  param AutoFocus whose disable field is 1 when the disable argument is True and 0 when
  it is False.
\<close>

theorem set_auto_focus_disable_flag:
  "set_auto_focus self (PBool b) channel s =
     execute_command self ''SetAutoFocus''
       (PList [PDict [(''cmd'', PStr ''SetAutoFocus''), (''action'', PInt 0),
          (''param'', PDict [(''AutoFocus'',
             PDict [(''channel'', kwarg channel (PInt 0)),
                    (''disable'', PInt (if b then 1 else 0))])])]]) s"
  by (simp add: set_auto_focus_def Let_def)

section \<open>Channel and action fields\<close>

text \<open>
  C5, as stated, fails: \<^verbatim>\<open>set_recording_advanced_v20_enable\<close> has no channel
  parameter and its param, {"Rec": {"enable": enable}}, has no channel field at any
  depth.
\<close>

theorem v20_enable_has_no_channel:
  "call_param (Set_recording_advanced_v20_enable None)
     = Some (PDict [(''Rec'', PDict [(''enable'', PInt 0)])])
   \<and> Option.bind (call_param (Set_recording_advanced_v20_enable None)) param_channel = None"
  by (simp add: observe_defs set_recording_advanced_v20_enable_def Let_def)

text \<open>
  C5, amended: for every public method that takes a channel argument, which is every
  one but \<^verbatim>\<open>set_recording_advanced_v20_enable\<close>, and for every choice of arguments,
  the param of the descriptor holds a channel field, at top level or inside the
  operation-specific object, whose value is the channel argument, 0 when it is left out.
\<close>

theorem channel_always_sent:
  assumes "channel_argument c = Some given"
  shows "Option.bind (call_param c) param_channel = Some (kwarg given (PInt 0))"
  using assms
  by (cases c; simp add: observe_defs method_defs Let_def)

theorem channel_always_sent_witness:
  "channel_argument (Get_alarm_motion None) = Some None
   \<and> Option.bind (call_param (Get_alarm_motion None)) param_channel = Some (PInt 0)
   \<and> channel_argument (Start_zoom_pos (PInt 5) (Some (PInt 3))) = Some (Some (PInt 3))
   \<and> Option.bind (call_param (Start_zoom_pos (PInt 5) (Some (PInt 3)))) param_channel
        = Some (PInt 3)"
  using channel_always_sent [of "Get_alarm_motion None" None]
        channel_always_sent [of "Start_zoom_pos (PInt 5) (Some (PInt 3))" "Some (PInt 3)"]
  by simp

text \<open>
  C6, as stated, fails: \<^verbatim>\<open>get_zoom_focus\<close> is a query and its descriptor has
  action 0, not 1.
\<close>

theorem get_zoom_focus_action_zero:
  "is_getter (Get_zoom_focus None)
   \<and> call_cmd (Get_zoom_focus None) = Some (PStr ''GetZoomFocus'')
   \<and> call_action (Get_zoom_focus None) = Some (PInt 0)
   \<and> call_action (Get_zoom_focus None) \<noteq> Some (PInt 1)"
  by (simp add: observe_defs get_zoom_focus_def Let_def)

text \<open>
  C6, amended: the action field of every descriptor is 0 or 1. It is 1 for the queries
  GetAlarm, GetPtzCheckState, GetPtzPreset, GetEnc and GetRec, and 0 for everything else:
  every set and control operation, and the queries GetRecV20, GetZoomFocus and
  GetAutoFocus.
\<close>

theorem action_values:
  "call_action c =
     Some (PInt (if is_getter c \<and>
                    call_cmd c \<notin> {Some (PStr ''GetRecV20''), Some (PStr ''GetZoomFocus''),
                                  Some (PStr ''GetAutoFocus'')}
                 then 1 else 0))"
  by (cases c; simp add: observe_defs method_defs Let_def)

end
